theory Spec2Isabelle
  imports Main "HOL-Library.Word"
begin

unbundle bit_operations_syntax

section \<open>Remote command execution over SSH (core/os/device/remotessh/commands.go)\<close>

subsection \<open>Data\<close>

text \<open>
  A Go \<open>string\<close> is a byte sequence: \<^typ>\<open>string\<close>. A Go \<open>error\<close> is modelled by its
  message; \<open>nil\<close> is \<open>None\<close> of \<^typ>\<open>'a option\<close>.
\<close>

datatype error = Error string

text \<open>
  \<open>shell.Env\<close> is declared outside this file. The code reads it through \<open>Keys()\<close> and
  \<open>Get(key)\<close> only, so an environment is the pair of these two observations.
\<close>

record Env =
  Keys :: "string list"
  Get :: "string \<Rightarrow> string"

text \<open>
  The values of \<open>device.OSKind\<close> that the code names, and any other value of the
  enumeration (the \<open>default\<close> branch of a switch).
\<close>

datatype OSKind = Linux | OSX | Windows | OtherOS nat

text \<open>An \<open>io.Reader\<close> or \<open>io.Writer\<close> is an opaque handle; \<open>nil\<close> is \<open>None\<close>.\<close>

type_synonym stream = nat

text \<open>The fields of \<open>shell.Cmd\<close> that \<open>Start\<close> reads.\<close>

record Cmd =
  Name :: string
  Args :: "string list"
  Dir :: string
  Environment :: Env
  Stdin :: "stream option"
  Stdout :: "stream option"
  Stderr :: "stream option"

text \<open>The fields of \<open>binding\<close> that this file reads (the SSH connection is the transport below).\<close>

record binding =
  env :: Env
  os :: OSKind

subsection \<open>Library functions\<close>

text \<open>\<open>strings.Join(elems, sep)\<close>.\<close>

fun Join :: "string list \<Rightarrow> string \<Rightarrow> string" where
  "Join [] sep = []"
| "Join [a] sep = a"
| "Join (a # b # rest) sep = a @ sep @ Join (b # rest) sep"

text \<open>
  \<open>text.Quote\<close> (package core/text) and \<open>strings.TrimSpace\<close> are parameters of the model:
  \<open>quote v\<close> stands for \<open>text.Quote([]string{v})[0]\<close> and \<open>trim e\<close> for
  \<open>strings.TrimSpace(e)\<close>. Two concrete instances are used to evaluate examples:
  \<open>quoteSpaces\<close> wraps a value that is empty or contains a blank in double quotes, and
  \<open>trimBlanks\<close> strips ASCII white space at both ends.
\<close>

definition isBlank :: "char \<Rightarrow> bool" where
  "isBlank c = (c \<in> set [CHR '' '', CHR 0x09, CHR 0x0A, CHR 0x0B, CHR 0x0C, CHR 0x0D])"

definition trimBlanks :: "string \<Rightarrow> string" where
  "trimBlanks s = rev (dropWhile isBlank (rev (dropWhile isBlank s)))"

definition quoteSpaces :: "string \<Rightarrow> string" where
  "quoteSpaces v =
     (if v = [] \<or> list_ex isBlank v then [CHR 0x22] @ v @ [CHR 0x22] else v)"

subsection \<open>The command line composed by \<open>Start\<close> (lines 104 to 123)\<close>

text \<open>
  One loop over the keys of an environment: an empty key is skipped, any other key adds
  \<open>TrimSpace(key) + "=" + quoted value + " "\<close> to the prefix.
\<close>

definition envLoop :: "(string \<Rightarrow> string) \<Rightarrow> (string \<Rightarrow> string) \<Rightarrow> Env \<Rightarrow> string \<Rightarrow> string" where
  "envLoop quote trim e prefix =
     foldl (\<lambda>prefix k.
              if k \<noteq> [] then prefix @ trim k @ ''='' @ quote (Get e k) @ '' '' else prefix)
           prefix (Keys e)"

definition commandLine ::
  "(string \<Rightarrow> string) \<Rightarrow> (string \<Rightarrow> string) \<Rightarrow> binding \<Rightarrow> Cmd \<Rightarrow> string" where
  "commandLine quote trim b cmd =
     (let prefix0 = [];
          prefix1 = (if Dir cmd \<noteq> [] then prefix0 @ ''cd '' @ Dir cmd @ ''; '' else prefix0);
          prefix2 = envLoop quote trim (Environment cmd) prefix1;
          prefix3 = envLoop quote trim (env b) prefix2
      in prefix3 @ Name cmd @ '' '' @ Join (Args cmd) '' '')"

subsection \<open>\<open>sshShellTarget.Start\<close>\<close>

text \<open>
  The transport is external. What it answers to the calls of one \<open>Start\<close> is an input of the
  model: \<open>None\<close> for success, \<open>Some err\<close> for the error returned.
\<close>

record transport =
  NewSession :: "error option"
  StdinPipe :: "error option"
  StdoutPipe :: "error option"
  StderrPipe :: "error option"
  SessionStart :: "string \<Rightarrow> error option"

text \<open>The goroutines handed to \<open>crash.Go\<close>, named by the pipe they copy.\<close>

datatype relay = StdinRelay | StdoutRelay | StderrRelay

text \<open>
  What one call of \<open>Start\<close> leaves behind: whether a session was opened on the connection
  (nothing in \<open>Start\<close> closes it), the counter of \<open>p.wg\<close>, the goroutines spawned, in order,
  and the command line the session accepted.
\<close>

record start_state =
  session_open :: bool
  wg :: nat
  goroutines :: "relay list"
  remote_cmd :: "string option"

definition fresh :: start_state where
  "fresh = \<lparr>session_open = False, wg = 0, goroutines = [], remote_cmd = None\<rparr>"

text \<open>Lines 69 to 78: the stdin pump is spawned without touching the wait group.\<close>

definition wireStdin :: "transport \<Rightarrow> Cmd \<Rightarrow> start_state \<Rightarrow> error option \<times> start_state" where
  "wireStdin tr cmd p =
     (if Stdin cmd \<noteq> None then
        (case StdinPipe tr of
           Some err \<Rightarrow> (Some err, p)
         | None \<Rightarrow> (None, p\<lparr>goroutines := goroutines p @ [StdinRelay]\<rparr>))
      else (None, p))"

text \<open>Lines 80 to 90: \<open>p.wg.Add(1)\<close>, then the stdout relay is spawned.\<close>

definition wireStdout :: "transport \<Rightarrow> Cmd \<Rightarrow> start_state \<Rightarrow> error option \<times> start_state" where
  "wireStdout tr cmd p =
     (if Stdout cmd \<noteq> None then
        (case StdoutPipe tr of
           Some err \<Rightarrow> (Some err, p)
         | None \<Rightarrow> (None, p\<lparr>wg := wg p + 1, goroutines := goroutines p @ [StdoutRelay]\<rparr>))
      else (None, p))"

text \<open>Lines 92 to 102: the same for stderr.\<close>

definition wireStderr :: "transport \<Rightarrow> Cmd \<Rightarrow> start_state \<Rightarrow> error option \<times> start_state" where
  "wireStderr tr cmd p =
     (if Stderr cmd \<noteq> None then
        (case StderrPipe tr of
           Some err \<Rightarrow> (Some err, p)
         | None \<Rightarrow> (None, p\<lparr>wg := wg p + 1, goroutines := goroutines p @ [StderrRelay]\<rparr>))
      else (None, p))"

text \<open>
  \<open>Start\<close> returns \<open>(nil, err)\<close>, here \<open>Some err\<close>, or \<open>(p, nil)\<close>, here \<open>None\<close>; the second
  component is the state left behind in either case.
\<close>

definition Start ::
  "(string \<Rightarrow> string) \<Rightarrow> (string \<Rightarrow> string) \<Rightarrow> transport \<Rightarrow> binding \<Rightarrow> Cmd
     \<Rightarrow> error option \<times> start_state" where
  "Start quote trim tr b cmd =
     (case NewSession tr of
        Some err \<Rightarrow> (Some err, fresh)
      | None \<Rightarrow>
         (let p = fresh\<lparr>session_open := True\<rparr> in
          case wireStdin tr cmd p of
            (Some err, p1) \<Rightarrow> (Some err, p1)
          | (None, p1) \<Rightarrow>
             (case wireStdout tr cmd p1 of
                (Some err, p2) \<Rightarrow> (Some err, p2)
              | (None, p2) \<Rightarrow>
                 (case wireStderr tr cmd p2 of
                    (Some err, p3) \<Rightarrow> (Some err, p3)
                  | (None, p3) \<Rightarrow>
                     (let val = commandLine quote trim b cmd in
                      case SessionStart tr val of
                        Some err \<Rightarrow> (Some err, p3)
                      | None \<Rightarrow> (None, p3\<lparr>remote_cmd := Some val\<rparr>))))))"

subsection \<open>The process after \<open>Start\<close>: relay goroutines and \<open>remoteProcess.Wait\<close>\<close>

text \<open>
  Each goroutine of \<open>Start\<close> runs \<open>io.Copy\<close> and then ends: the stdin pump by closing the
  pipe (the deferred \<open>stdin.Close()\<close>), a stdout or stderr relay by \<open>p.wg.Done()\<close>.
  \<open>Wait\<close> runs \<open>r.session.Wait()\<close>, then \<open>r.wg.Wait()\<close>, then returns.
\<close>

datatype task_pc = NotSpawned | Copying | CopyReturned | Finished

datatype wait_pc = NotCalled | InSessionWait | InWgWait | WaitReturned

record proc_state =
  counter :: int
  tasks :: "relay \<Rightarrow> task_pc"
  session_done :: bool
  waiter :: wait_pc

text \<open>
  The atomic steps of the goroutines, interleaved in any order. \<open>SessionEnds\<close> is the remote
  command exiting (or the session failing), which is what \<open>session.Wait()\<close> blocks on;
  \<open>sync.WaitGroup.Wait\<close> blocks until the counter is zero.
\<close>

datatype event =
    SessionEnds
  | CopyReturns relay
  | TaskEnds relay
  | WaitCalled
  | SessionWaitReturns
  | WgWaitReturns

text \<open>One step; \<open>None\<close> when the event is not enabled in the state.\<close>

fun step :: "event \<Rightarrow> proc_state \<Rightarrow> proc_state option" where
  "step SessionEnds s =
     (if session_done s then None else Some (s\<lparr>session_done := True\<rparr>))"
| "step (CopyReturns r) s =
     (if tasks s r = Copying then Some (s\<lparr>tasks := (tasks s)(r := CopyReturned)\<rparr>) else None)"
| "step (TaskEnds r) s =
     (if tasks s r = CopyReturned then
        Some (s\<lparr>tasks := (tasks s)(r := Finished),
                counter := (if r = StdinRelay then counter s else counter s - 1)\<rparr>)
      else None)"
| "step WaitCalled s =
     (if waiter s = NotCalled then Some (s\<lparr>waiter := InSessionWait\<rparr>) else None)"
| "step SessionWaitReturns s =
     (if waiter s = InSessionWait \<and> session_done s then Some (s\<lparr>waiter := InWgWait\<rparr>) else None)"
| "step WgWaitReturns s =
     (if waiter s = InWgWait \<and> counter s = 0 then Some (s\<lparr>waiter := WaitReturned\<rparr>) else None)"

fun run :: "event list \<Rightarrow> proc_state \<Rightarrow> proc_state option" where
  "run [] s = Some s"
| "run (e # es) s = (case step e s of None \<Rightarrow> None | Some s' \<Rightarrow> run es s')"

text \<open>The process as a successful \<open>Start\<close> hands it over: every spawned goroutine is copying.\<close>

definition started :: "start_state \<Rightarrow> proc_state" where
  "started st =
     \<lparr>counter = int (wg st),
      tasks = (\<lambda>r. if r \<in> set (goroutines st) then Copying else NotSpawned),
      session_done = False,
      waiter = NotCalled\<rparr>"

subsection \<open>Port forwarding: \<open>doTunnel\<close> and the accept loop of \<open>SetupLocalPort\<close>\<close>

type_synonym conn = nat

text \<open>
  What the environment answers to one iteration of the accept loop: \<open>Accept\<close> fails, or it
  returns a connection, together with the answer of \<open>b.connection.Dial\<close> for it.
\<close>

datatype accept = AcceptFails | Accepted conn "error option"

record listener_state =
  listening :: bool
  accepted :: "conn list"
  local_closed :: "conn list"
  forwarding :: "conn list"

text \<open>
  Lines 202 to 252. A failed dial closes the local connection and returns the error; a
  successful one spawns the two copy goroutines and their supervisor and returns \<open>nil\<close>.
\<close>

definition doTunnel :: "error option \<Rightarrow> conn \<Rightarrow> listener_state \<Rightarrow> error option \<times> listener_state" where
  "doTunnel dial local s =
     (case dial of
        Some err \<Rightarrow> (Some err, s\<lparr>local_closed := local_closed s @ [local]\<rparr>)
      | None \<Rightarrow> (None, s\<lparr>forwarding := forwarding s @ [local]\<rparr>))"

datatype loop_exit = BlockedInAccept | LoopReturned

text \<open>
  Lines 266 to 277, run against a finite script of answers. Either \<open>return\<close> runs the
  deferred \<open>listener.Close()\<close>. When the script is used up the goroutine is blocked in
  \<open>Accept\<close>.
\<close>

fun acceptLoop :: "accept list \<Rightarrow> listener_state \<Rightarrow> loop_exit \<times> listener_state" where
  "acceptLoop [] s = (BlockedInAccept, s)"
| "acceptLoop (AcceptFails # rest) s = (LoopReturned, s\<lparr>listening := False\<rparr>)"
| "acceptLoop (Accepted local dial # rest) s =
     (case doTunnel dial local (s\<lparr>accepted := accepted s @ [local]\<rparr>) of
        (Some err, s') \<Rightarrow> (LoopReturned, s'\<lparr>listening := False\<rparr>)
      | (None, s') \<Rightarrow> acceptLoop rest s')"

text \<open>
  \<open>SetupLocalPort\<close>: \<open>net.Listen\<close> answers an error or the port of the listener; the accept
  loop then runs in its goroutine.
\<close>

definition SetupLocalPort :: "error + nat \<Rightarrow> accept list \<Rightarrow> (error + nat) \<times> (loop_exit \<times> listener_state) option" where
  "SetupLocalPort listen script =
     (case listen of
        Inl err \<Rightarrow> (Inl err, None)
      | Inr port \<Rightarrow>
          (Inr port,
           Some (acceptLoop script
                   \<lparr>listening = True, accepted = [], local_closed = [], forwarding = []\<rparr>)))"

subsection \<open>File and directory operations\<close>

text \<open>
  Modelled from the spec: \<open>shell.Command\<close>, \<open>Cmd.On\<close> and \<open>Cmd.Read\<close> (package
  core/os/shell) are not in this file. The spec's command descriptor has a program name,
  an argument sequence and an optional directory, optional streams and an environment;
  \<open>b.Shell(name, args...)\<close> gives the descriptor with that name and those arguments and
  nothing else set (an environment without keys), and \<open>Read\<close> sets its input stream.
\<close>

definition nilEnv :: Env where
  "nilEnv = \<lparr>Keys = [], Get = (\<lambda>k. [])\<rparr>"

definition Shell :: "binding \<Rightarrow> string \<Rightarrow> string list \<Rightarrow> Cmd" where
  "Shell b name args =
     \<lparr>Name = name, Args = args, Dir = [], Environment = nilEnv,
      Stdin = None, Stdout = None, Stderr = None\<rparr>"

definition Read :: "stream \<Rightarrow> Cmd \<Rightarrow> Cmd" where
  "Read contents cmd = cmd\<lparr>Stdin := Some contents\<rparr>"

text \<open>
  \<open>Cmd.Call\<close>, of the same package, is a parameter of the model: \<open>call cmd r\<close> runs \<open>cmd\<close>
  to completion on a remote in state \<open>r\<close> and answers the captured output, the error, and
  the remote's next state.
\<close>

type_synonym 'r call = "Cmd \<Rightarrow> 'r \<Rightarrow> (string \<times> error option) \<times> 'r"

text \<open>A cleanup handle is the closure over the directory it removes.\<close>

datatype cleanup = RemoveDir string

definition destroyPosixDirectory :: "'r call \<Rightarrow> binding \<Rightarrow> string \<Rightarrow> 'r \<Rightarrow> 'r" where
  "destroyPosixDirectory call b dir r = snd (call (Shell b ''rm'' [''-rf'', dir]) r)"

fun runCleanup :: "'r call \<Rightarrow> binding \<Rightarrow> cleanup \<Rightarrow> 'r \<Rightarrow> 'r" where
  "runCleanup call b (RemoveDir dir) r = destroyPosixDirectory call b dir r"

type_synonym tempdir = "string \<times> cleanup option \<times> error option"

definition createPosixTempDirectory :: "'r call \<Rightarrow> binding \<Rightarrow> 'r \<Rightarrow> tempdir \<times> 'r" where
  "createPosixTempDirectory call b r =
     (case call (Shell b ''mktemp'' [''-d'']) r of
        ((dir, Some err), r') \<Rightarrow> (([], None, Some err), r')
      | ((dir, None), r') \<Rightarrow> ((dir, Some (RemoveDir dir), None), r'))"

definition createWindowsTempDirectory :: "'r \<Rightarrow> tempdir \<times> 'r" where
  "createWindowsTempDirectory r =
     (([], None, Some (Error ''Windows remote targets are not yet supported.'')), r)"

text \<open>
  A call returns, or it panics; the panic of \<open>MakeTempDir\<close> carries the OS it does not
  support. Both keep the state of the remote.
\<close>

datatype ('a, 'r) outcome = Returns 'a 'r | Panics OSKind 'r

definition MakeTempDir :: "'r call \<Rightarrow> binding \<Rightarrow> 'r \<Rightarrow> (tempdir, 'r) outcome" where
  "MakeTempDir call b r =
     (case os b of
        Linux \<Rightarrow> (case createPosixTempDirectory call b r of (res, r') \<Rightarrow> Returns res r')
      | OSX \<Rightarrow> (case createPosixTempDirectory call b r of (res, r') \<Rightarrow> Returns res r')
      | Windows \<Rightarrow> (case createWindowsTempDirectory r of (res, r') \<Rightarrow> Returns res r')
      | OtherOS k \<Rightarrow> Panics (OtherOS k) r)"

text \<open>
  \<open>os.FileMode\<close> is a \<open>uint32\<close>; \<open>Perm()\<close> keeps the nine permission bits (octal 777).
  \<open>fmt.Sprintf("%4o", x)\<close> writes \<open>x\<close> in octal, padded with blanks on the left to width 4.
\<close>

type_synonym FileMode = "32 word"

definition Perm :: "FileMode \<Rightarrow> FileMode" where
  "Perm m = m AND 511"

fun octal :: "nat \<Rightarrow> string" where
  "octal n =
     (if n < 8 then [''01234567'' ! n] else octal (n div 8) @ [''01234567'' ! (n mod 8)])"

declare octal.simps [simp del]

definition Sprintf_4o :: "FileMode \<Rightarrow> string" where
  "Sprintf_4o x = (let d = octal (unat x) in replicate (4 - length d) CHR '' '' @ d)"

definition WriteFile :: "'r call \<Rightarrow> binding \<Rightarrow> stream \<Rightarrow> FileMode \<Rightarrow> string \<Rightarrow> 'r \<Rightarrow> error option \<times> 'r" where
  "WriteFile call b contents mode destPath r =
     (let perm = Sprintf_4o (Perm mode) in
      case call (Read contents
                   (Shell b ''cat'' [''>'', destPath, ''; chmod '', perm, '' '', destPath])) r of
        ((out, err), r') \<Rightarrow> (err, r'))"

text \<open>
  The local file system answers \<open>os.Open\<close> and \<open>os.Stat\<close> (of which only \<open>Mode()\<close> is read);
  \<open>goos\<close> is \<open>runtime.GOOS\<close>. Octal 0550 is 360.
\<close>

record localfs =
  os_Open :: "string \<Rightarrow> error + stream"
  os_Stat :: "string \<Rightarrow> error + FileMode"

definition PushFile ::
  "'r call \<Rightarrow> string \<Rightarrow> localfs \<Rightarrow> binding \<Rightarrow> string \<Rightarrow> string \<Rightarrow> 'r \<Rightarrow> error option \<times> 'r" where
  "PushFile call goos fs b source dest r =
     (case os_Open fs source of
        Inl err \<Rightarrow> (Some err, r)
      | Inr infile \<Rightarrow>
          (case os_Stat fs source of
             Inl err \<Rightarrow> (Some err, r)
           | Inr mode \<Rightarrow>
               (let mode' = (if (os b = Linux \<or> os b = OSX) \<and> goos = ''windows''
                             then mode OR 360 else mode)
                in WriteFile call b infile mode' dest r)))"

text \<open>Lines 354 to 373. The path is put between double quotes.\<close>

definition inQuotes :: "string \<Rightarrow> string" where
  "inQuotes p = [CHR 0x22] @ p @ [CHR 0x22]"

definition IsDirectory :: "'r call \<Rightarrow> binding \<Rightarrow> string \<Rightarrow> 'r \<Rightarrow> (bool \<times> error option) \<times> 'r" where
  "IsDirectory call b inPath r =
     (case call (Shell b ''cd'' [inQuotes inPath]) r of
        ((out, Some err), r') \<Rightarrow> ((False, None), r')
      | ((out, None), r') \<Rightarrow> ((True, None), r'))"

definition IsFile :: "'r call \<Rightarrow> binding \<Rightarrow> string \<Rightarrow> 'r \<Rightarrow> (bool \<times> error option) \<times> 'r" where
  "IsFile call b inPath r =
     (case IsDirectory call b inPath r of
        ((dir, err), r1) \<Rightarrow>
          (if err = None \<and> dir then ((False, None), r1)
           else
             (case call (Shell b ''stat'' [inQuotes inPath]) r1 of
                ((out, Some err'), r2) \<Rightarrow> ((False, None), r2)
              | ((out, None), r2) \<Rightarrow> ((True, None), r2))))"

subsection \<open>Concrete inputs for evaluation\<close>

definition oneVar :: "string \<Rightarrow> string \<Rightarrow> Env" where
  "oneVar k v = \<lparr>Keys = [k], Get = (\<lambda>x. if x = k then v else [])\<rparr>"

definition linuxBox :: binding where
  "linuxBox = \<lparr>env = nilEnv, os = Linux\<rparr>"

definition okTransport :: transport where
  "okTransport = \<lparr>NewSession = None, StdinPipe = None, StdoutPipe = None, StderrPipe = None,
     SessionStart = (\<lambda>val. None)\<rparr>"

definition stdoutPipeFails :: transport where
  "stdoutPipeFails = okTransport\<lparr>StdoutPipe := Some (Error ''stdout pipe'')\<rparr>"

text \<open>A remote on which every command succeeds with no output; its state is the log of commands.\<close>

definition logCall :: "Cmd list call" where
  "logCall cmd log = (([], None), log @ [cmd])"

text \<open>The same remote, except that \<open>cd\<close> fails.\<close>

definition cdFails :: "Cmd list call" where
  "cdFails cmd log =
     (([], if Name cmd = ''cd'' then Some (Error ''exit status 1'') else None), log @ [cmd])"

text \<open>A local file system on which every file opens and has the given mode.\<close>

definition plainFile :: "FileMode \<Rightarrow> localfs" where
  "plainFile mode = \<lparr>os_Open = (\<lambda>p. Inr 7), os_Stat = (\<lambda>p. Inr mode)\<rparr>"

subsection \<open>Notions used in the statements and proofs\<close>

text \<open>The \<open>KEY=VALUE\<close> tokens, each followed by a blank, of the non-empty keys of a list.\<close>

abbreviation envTokens ::
  "(string \<Rightarrow> string) \<Rightarrow> (string \<Rightarrow> string) \<Rightarrow> Env \<Rightarrow> string list \<Rightarrow> string" where
  "envTokens quote trim e ks \<equiv>
     concat (map (\<lambda>k. trim k @ ''='' @ quote (Get e k) @ '' '') (filter (\<lambda>k. k \<noteq> []) ks))"

text \<open>
  The invariant of the wait group: its counter is the number of stdout and stderr relays
  that have not yet called \<open>Done\<close>; a spawned goroutine stays spawned; \<open>Wait\<close> is past
  \<open>session.Wait()\<close> only when the session is done, and has returned only at counter zero.
\<close>

definition pending :: "task_pc \<Rightarrow> int" where
  "pending t = (if t = Copying \<or> t = CopyReturned then 1 else 0)"

definition wg_inv :: "proc_state \<Rightarrow> proc_state \<Rightarrow> bool" where
  "wg_inv s0 s \<longleftrightarrow>
     counter s = pending (tasks s StdoutRelay) + pending (tasks s StderrRelay)
   \<and> (\<forall>r. tasks s0 r \<noteq> NotSpawned \<longrightarrow> tasks s r \<noteq> NotSpawned)
   \<and> (waiter s = WaitReturned \<longrightarrow> counter s = 0 \<and> session_done s)
   \<and> (waiter s = InWgWait \<longrightarrow> session_done s)"

section \<open>The composed command line\<close>

lemma foldl_env_tokens:
  "foldl (\<lambda>prefix k. if k \<noteq> [] then prefix @ trim k @ ''='' @ quote (g k) @ '' '' else prefix)
         prefix ks
     = prefix @ concat (map (\<lambda>k. trim k @ ''='' @ quote (g k) @ '' '')
                            (filter (\<lambda>k. k \<noteq> []) ks))"
  by (induction ks arbitrary: prefix) simp_all

lemma envLoop_tokens:
  "envLoop quote trim e prefix = prefix @ envTokens quote trim e (Keys e)"
  unfolding envLoop_def by (rule foldl_env_tokens)

lemma commandLine_parts:
  "commandLine quote trim b cmd =
     (if Dir cmd = [] then [] else ''cd '' @ Dir cmd @ ''; '')
     @ envTokens quote trim (Environment cmd) (Keys (Environment cmd))
     @ envTokens quote trim (env b) (Keys (env b))
     @ Name cmd @ '' '' @ Join (Args cmd) '' ''"
  by (simp add: commandLine_def envLoop_tokens Let_def)

lemmas eval_commandLine =
  commandLine_def envLoop_def quoteSpaces_def trimBlanks_def isBlank_def oneVar_def
  linuxBox_def nilEnv_def Shell_def

lemmas eval_Start =
  Start_def wireStdin_def wireStdout_def wireStderr_def fresh_def okTransport_def

text \<open>
  Claim C1, as the code has it. A key that is in the command's environment and in the
  device's is not merged: the line carries the command-level token \<open>KEY=VALUE\<close> and, after
  all command-level tokens, the device-level token for the same key, with the device's
  value. Nothing drops the device default.
\<close>

theorem Start_env_both_tokens:
  assumes "k \<in> set (Keys (Environment cmd))"
    and "k \<in> set (Keys (env b))"
    and "k \<noteq> []"
  shows "\<exists>cs1 cs2 ds1 ds2.
     Keys (Environment cmd) = cs1 @ k # cs2
   \<and> Keys (env b) = ds1 @ k # ds2
   \<and> commandLine quote trim b cmd =
       (if Dir cmd = [] then [] else ''cd '' @ Dir cmd @ ''; '')
       @ envTokens quote trim (Environment cmd) cs1
       @ (trim k @ ''='' @ quote (Get (Environment cmd) k) @ '' '')
       @ envTokens quote trim (Environment cmd) cs2
       @ envTokens quote trim (env b) ds1
       @ (trim k @ ''='' @ quote (Get (env b) k) @ '' '')
       @ envTokens quote trim (env b) ds2
       @ Name cmd @ '' '' @ Join (Args cmd) '' ''"
proof -
  from assms(1) obtain cs1 cs2 where c: "Keys (Environment cmd) = cs1 @ k # cs2"
    by (auto dest: split_list)
  from assms(2) obtain ds1 ds2 where d: "Keys (env b) = ds1 @ k # ds2"
    by (auto dest: split_list)
  have "commandLine quote trim b cmd =
       (if Dir cmd = [] then [] else ''cd '' @ Dir cmd @ ''; '')
       @ envTokens quote trim (Environment cmd) cs1
       @ (trim k @ ''='' @ quote (Get (Environment cmd) k) @ '' '')
       @ envTokens quote trim (Environment cmd) cs2
       @ envTokens quote trim (env b) ds1
       @ (trim k @ ''='' @ quote (Get (env b) k) @ '' '')
       @ envTokens quote trim (env b) ds2
       @ Name cmd @ '' '' @ Join (Args cmd) '' ''"
    using assms(3) by (simp add: commandLine_parts c d)
  with c d show ?thesis by blast
qed

text \<open>The theorem of claim C1 at \<open>A=1\<close> on the command and \<open>A=2\<close> on the device.\<close>

theorem Start_env_both_tokens_witness:
  "''A'' \<in> set (Keys (oneVar ''A'' ''1''))
   \<and> ''A'' \<in> set (Keys (env (linuxBox\<lparr>env := oneVar ''A'' ''2''\<rparr>)))
   \<and> commandLine quoteSpaces trimBlanks (linuxBox\<lparr>env := oneVar ''A'' ''2''\<rparr>)
        ((Shell linuxBox ''ls'' [''-l''])\<lparr>Environment := oneVar ''A'' ''1''\<rparr>)
      = ''A=1 A=2 ls -l''"
proof -
  let ?b = "linuxBox\<lparr>env := oneVar ''A'' ''2''\<rparr>"
  let ?cmd = "(Shell linuxBox ''ls'' [''-l''])\<lparr>Environment := oneVar ''A'' ''1''\<rparr>"
  have h1: "''A'' \<in> set (Keys (Environment ?cmd))" by (simp add: oneVar_def)
  have h2: "''A'' \<in> set (Keys (env ?b))" by (simp add: oneVar_def)
  have h3: "''A'' \<noteq> []" by simp
  from Start_env_both_tokens [OF h1 h2 h3, of quoteSpaces trimBlanks]
  obtain cs1 cs2 ds1 ds2 where
    c: "Keys (Environment ?cmd) = cs1 @ ''A'' # cs2" and
    d: "Keys (env ?b) = ds1 @ ''A'' # ds2" and
    line: "commandLine quoteSpaces trimBlanks ?b ?cmd =
       (if Dir ?cmd = [] then [] else ''cd '' @ Dir ?cmd @ ''; '')
       @ envTokens quoteSpaces trimBlanks (Environment ?cmd) cs1
       @ (trimBlanks ''A'' @ ''='' @ quoteSpaces (Get (Environment ?cmd) ''A'') @ '' '')
       @ envTokens quoteSpaces trimBlanks (Environment ?cmd) cs2
       @ envTokens quoteSpaces trimBlanks (env ?b) ds1
       @ (trimBlanks ''A'' @ ''='' @ quoteSpaces (Get (env ?b) ''A'') @ '' '')
       @ envTokens quoteSpaces trimBlanks (env ?b) ds2
       @ Name ?cmd @ '' '' @ Join (Args ?cmd) '' ''"
    by blast
  from c have "cs1 = [] \<and> cs2 = []"
    by (simp add: oneVar_def append_eq_Cons_conv Cons_eq_append_conv)
  moreover from d have "ds1 = [] \<and> ds2 = []"
    by (simp add: oneVar_def append_eq_Cons_conv Cons_eq_append_conv)
  ultimately have "commandLine quoteSpaces trimBlanks ?b ?cmd = ''A=1 A=2 ls -l''"
    using line by (simp add: quoteSpaces_def trimBlanks_def isBlank_def oneVar_def Shell_def)
  with h1 h2 show ?thesis by (simp add: Shell_def)
qed

text \<open>
  Claim C1 as stated fails: with \<open>A=1\<close> on the command and \<open>A=2\<close> on the device, the
  line that \<open>Start\<close> sends carries the device's value too, after the command's.
\<close>

theorem Start_device_value_sent_last:
  "remote_cmd (snd (Start quoteSpaces trimBlanks okTransport
        (linuxBox\<lparr>env := oneVar ''A'' ''2''\<rparr>)
        ((Shell linuxBox ''ls'' [''-l''])\<lparr>Environment := oneVar ''A'' ''1''\<rparr>)))
     = Some ''A=1 A=2 ls -l''"
  by (simp add: eval_Start eval_commandLine)

text \<open>
  Claim C4, as the code has it. The line is: \<open>cd DIR; \<close> when a directory is set, with
  \<open>DIR\<close> copied as it is (not quoted); one token \<open>TrimSpace(KEY)=quote(VALUE)\<close> and a blank
  for each non-empty key of the command's environment, in the order of \<open>Keys\<close>; the same for
  each non-empty key of the device's environment; the name, a blank, and the arguments
  joined by blanks.
\<close>

theorem commandLine_shape:
  "commandLine quote trim b cmd =
     (if Dir cmd = [] then [] else ''cd '' @ Dir cmd @ ''; '')
     @ concat (map (\<lambda>k. trim k @ ''='' @ quote (Get (Environment cmd) k) @ '' '')
                   (filter (\<lambda>k. k \<noteq> []) (Keys (Environment cmd))))
     @ concat (map (\<lambda>k. trim k @ ''='' @ quote (Get (env b) k) @ '' '')
                   (filter (\<lambda>k. k \<noteq> []) (Keys (env b))))
     @ Name cmd @ '' '' @ Join (Args cmd) '' ''"
  by (rule commandLine_parts)

text \<open>
  Claim C4 as stated fails on the directory: a value with a blank is quoted, a directory
  with a blank is not.
\<close>

theorem commandLine_dir_not_quoted: \<open>
  commandLine quoteSpaces trimBlanks linuxBox
      ((Shell linuxBox ''ls'' [''-l''])\<lparr>Dir := ''my dir'', Environment := oneVar ''K'' ''a b''\<rparr>)
    = ''cd my dir; K="a b" ls -l''
  \<and> quoteSpaces ''my dir'' = ''"my dir"''\<close>
  by (simp add: eval_commandLine)

section \<open>Errors of \<open>Start\<close>\<close>

text \<open>
  Claim C5, as the code has it. When \<open>Start\<close> returns an error no command line has been
  accepted by the session. The session, once \<open>NewSession\<close> has returned it, stays open, and
  every relay spawned before the failing step stays spawned: the stdin pump when its pipe
  was obtained, the stdout relay when the stdin step and its own pipe succeeded, the
  stderr relay when the two steps before it and its own pipe succeeded.
\<close>

theorem Start_error_leaves:
  assumes "Start quote trim tr b cmd = (Some err, st)"
  shows "remote_cmd st = None
   \<and> (session_open st \<longleftrightarrow> NewSession tr = None)
   \<and> (StdinRelay \<in> set (goroutines st) \<longleftrightarrow>
        NewSession tr = None \<and> Stdin cmd \<noteq> None \<and> StdinPipe tr = None)
   \<and> (StdoutRelay \<in> set (goroutines st) \<longleftrightarrow>
        NewSession tr = None \<and> (Stdin cmd \<noteq> None \<longrightarrow> StdinPipe tr = None)
        \<and> Stdout cmd \<noteq> None \<and> StdoutPipe tr = None)
   \<and> (StderrRelay \<in> set (goroutines st) \<longleftrightarrow>
        NewSession tr = None \<and> (Stdin cmd \<noteq> None \<longrightarrow> StdinPipe tr = None)
        \<and> (Stdout cmd \<noteq> None \<longrightarrow> StdoutPipe tr = None)
        \<and> Stderr cmd \<noteq> None \<and> StderrPipe tr = None)"
  using assms
  by (auto simp: Start_def wireStdin_def wireStdout_def wireStderr_def fresh_def Let_def
      split: option.splits if_splits prod.splits)

text \<open>The theorem of claim C5 where the stdout pipe fails after the stdin pump was spawned.\<close>

theorem Start_error_leaves_witness:
  "\<exists>st. Start quoteSpaces trimBlanks stdoutPipeFails linuxBox
        ((Shell linuxBox ''cat'' [])\<lparr>Stdin := Some 0, Stdout := Some 1\<rparr>)
       = (Some (Error ''stdout pipe''), st)
     \<and> remote_cmd st = None \<and> session_open st \<and> StdinRelay \<in> set (goroutines st)
     \<and> StdoutRelay \<notin> set (goroutines st)"
proof -
  let ?cmd = "(Shell linuxBox ''cat'' [])\<lparr>Stdin := Some 0, Stdout := Some 1\<rparr>"
  obtain st where h: "Start quoteSpaces trimBlanks stdoutPipeFails linuxBox ?cmd
       = (Some (Error ''stdout pipe''), st)"
    by (simp add: eval_Start stdoutPipeFails_def Shell_def)
  from Start_error_leaves [OF h] h show ?thesis
    by (simp add: stdoutPipeFails_def okTransport_def Shell_def)
qed

text \<open>
  Claim C5 as stated fails: when the stdout pipe cannot be obtained, \<open>Start\<close> returns the
  error with the session open and the stdin pump running.
\<close>

theorem Start_error_leaks:
  "Start quoteSpaces trimBlanks stdoutPipeFails linuxBox
        ((Shell linuxBox ''cat'' [])\<lparr>Stdin := Some 0, Stdout := Some 1\<rparr>)
     = (Some (Error ''stdout pipe''),
        \<lparr>session_open = True, wg = 0, goroutines = [StdinRelay], remote_cmd = None\<rparr>)"
  by (simp add: eval_Start stdoutPipeFails_def Shell_def)

section \<open>\<open>Wait\<close> and the relay goroutines\<close>

lemma step_inv:
  assumes "wg_inv s0 s" and "step e s = Some s'"
  shows "wg_inv s0 s'"
proof (cases e)
  case SessionEnds
  with assms(2) have "s' = s\<lparr>session_done := True\<rparr>"
    by (simp split: if_splits)
  with assms(1) show ?thesis by (auto simp: wg_inv_def)
next
  case (CopyReturns r)
  with assms(2) have pc: "tasks s r = Copying"
    and s': "s' = s\<lparr>tasks := (tasks s)(r := CopyReturned)\<rparr>"
    by (simp_all split: if_splits)
  from assms(1) pc show ?thesis
    unfolding s' wg_inv_def by (cases r) (auto simp: pending_def)
next
  case (TaskEnds r)
  with assms(2) have pc: "tasks s r = CopyReturned"
    and s': "s' = s\<lparr>tasks := (tasks s)(r := Finished),
                      counter := (if r = StdinRelay then counter s else counter s - 1)\<rparr>"
    by (simp_all split: if_splits)
  from assms(1) pc show ?thesis
    unfolding s' wg_inv_def by (cases r) (auto simp: pending_def)
next
  case WaitCalled
  with assms(2) have "waiter s = NotCalled" and "s' = s\<lparr>waiter := InSessionWait\<rparr>"
    by (simp_all split: if_splits)
  with assms(1) show ?thesis by (auto simp: wg_inv_def)
next
  case SessionWaitReturns
  with assms(2) have "session_done s" and "s' = s\<lparr>waiter := InWgWait\<rparr>"
    by (simp_all split: if_splits)
  with assms(1) show ?thesis by (auto simp: wg_inv_def)
next
  case WgWaitReturns
  with assms(2) have "waiter s = InWgWait" and "counter s = 0"
    and "s' = s\<lparr>waiter := WaitReturned\<rparr>"
    by (simp_all split: if_splits)
  with assms(1) show ?thesis by (auto simp: wg_inv_def)
qed

text \<open>
  \<open>sync.WaitGroup\<close> panics when \<open>Done\<close> makes its counter negative. Under the invariant a
  stdout or stderr relay that is about to call \<open>Done\<close> finds the counter at least 1.
\<close>

lemma Done_never_negative:
  assumes "wg_inv s0 s" and "tasks s r = CopyReturned" and "r \<noteq> StdinRelay"
  shows "1 \<le> counter s"
  using assms by (cases r) (auto simp: wg_inv_def pending_def)

lemma run_inv: "wg_inv s0 s \<Longrightarrow> run es s = Some s' \<Longrightarrow> wg_inv s0 s'"
proof (induction es arbitrary: s)
  case Nil
  then show ?case by simp
next
  case (Cons e es)
  then obtain s1 where s1: "step e s = Some s1" and r: "run es s1 = Some s'"
    by (auto split: option.splits)
  from step_inv [OF Cons.prems(1) s1] have "wg_inv s0 s1" .
  from Cons.IH [OF this r] show ?case .
qed

lemma Start_ok:
  "Start quote trim tr b cmd = (None, st) \<Longrightarrow>
     st = \<lparr>session_open = True,
           wg = (if Stdout cmd \<noteq> None then 1 else 0) + (if Stderr cmd \<noteq> None then 1 else 0),
           goroutines = (if Stdin cmd \<noteq> None then [StdinRelay] else [])
                        @ (if Stdout cmd \<noteq> None then [StdoutRelay] else [])
                        @ (if Stderr cmd \<noteq> None then [StderrRelay] else []),
           remote_cmd = Some (commandLine quote trim b cmd)\<rparr>"
  by (auto simp: Start_def wireStdin_def wireStdout_def wireStderr_def fresh_def Let_def
      split: option.splits if_splits prod.splits)

lemma started_inv:
  "Start quote trim tr b cmd = (None, st) \<Longrightarrow> wg_inv (started st) (started st)"
  by (drule Start_ok) (simp add: wg_inv_def started_def pending_def)

text \<open>
  Claim C2. After a successful \<open>Start\<close>, in every interleaving of the goroutines, once
  \<open>Wait\<close> has returned the session is done and the stdout relay (when a stdout stream was
  supplied) and the stderr relay (when a stderr stream was supplied) have finished: their
  \<open>io.Copy\<close> has returned and they have called \<open>Done\<close>.
\<close>

theorem Wait_barrier:
  assumes "Start quote trim tr b cmd = (None, st)"
    and "run evs (started st) = Some s"
    and "waiter s = WaitReturned"
  shows "(Stdout cmd \<noteq> None \<longrightarrow> tasks s StdoutRelay = Finished)
       \<and> (Stderr cmd \<noteq> None \<longrightarrow> tasks s StderrRelay = Finished)
       \<and> session_done s"
proof -
  have inv: "wg_inv (started st) s"
    using run_inv [OF started_inv [OF assms(1)] assms(2)] .
  have zero: "pending (tasks s StdoutRelay) + pending (tasks s StderrRelay) = 0" and sd: "session_done s"
    using inv assms(3) by (auto simp: wg_inv_def)
  have spawned: "\<And>r. r \<in> set (goroutines st) \<Longrightarrow> tasks s r \<noteq> NotSpawned"
    using inv by (simp add: wg_inv_def started_def)
  have out: "Stdout cmd \<noteq> None \<Longrightarrow> StdoutRelay \<in> set (goroutines st)"
    and err: "Stderr cmd \<noteq> None \<Longrightarrow> StderrRelay \<in> set (goroutines st)"
    using Start_ok [OF assms(1)] by auto
  have fin: "\<And>r. pending (tasks s r) = 0 \<Longrightarrow> r \<in> set (goroutines st) \<Longrightarrow> tasks s r = Finished"
  proof -
    fix r assume p: "pending (tasks s r) = 0" and g: "r \<in> set (goroutines st)"
    from spawned [OF g] p show "tasks s r = Finished"
      by (cases "tasks s r") (simp_all add: pending_def)
  qed
  have "pending (tasks s StdoutRelay) = 0" "pending (tasks s StderrRelay) = 0"
    using zero by (auto simp: pending_def split: if_splits)
  with fin out err sd show ?thesis by blast
qed

text \<open>
  The theorem of claim C2 on a command with both streams, along an interleaving in which
  \<open>Wait\<close> is called while the stderr relay is still copying.
\<close>

theorem Wait_barrier_witness:
  "\<exists>st s. Start quoteSpaces trimBlanks okTransport linuxBox
             ((Shell linuxBox ''ls'' [])\<lparr>Stdout := Some 1, Stderr := Some 2\<rparr>) = (None, st)
     \<and> run [CopyReturns StdoutRelay, SessionEnds, WaitCalled, TaskEnds StdoutRelay,
            SessionWaitReturns, CopyReturns StderrRelay, TaskEnds StderrRelay, WgWaitReturns]
           (started st) = Some s
     \<and> waiter s = WaitReturned
     \<and> tasks s StdoutRelay = Finished \<and> tasks s StderrRelay = Finished \<and> session_done s"
proof -
  let ?cmd = "(Shell linuxBox ''ls'' [])\<lparr>Stdout := Some 1, Stderr := Some 2\<rparr>"
  let ?evs = "[CopyReturns StdoutRelay, SessionEnds, WaitCalled, TaskEnds StdoutRelay,
            SessionWaitReturns, CopyReturns StderrRelay, TaskEnds StderrRelay, WgWaitReturns]"
  obtain st where h1: "Start quoteSpaces trimBlanks okTransport linuxBox ?cmd = (None, st)"
    by (simp add: Start_def wireStdin_def wireStdout_def wireStderr_def fresh_def
        okTransport_def Shell_def)
  have "\<exists>s. run ?evs (started st) = Some s \<and> waiter s = WaitReturned"
    using Start_ok [OF h1] by (simp add: started_def Shell_def)
  then obtain s where h2: "run ?evs (started st) = Some s" and h3: "waiter s = WaitReturned"
    by blast
  from Wait_barrier [OF h1 h2 h3] h1 h2 h3 show ?thesis
    by (auto simp: Shell_def)
qed

text \<open>
  Claim C10. When an input stream is supplied and \<open>Start\<close> succeeds, the stdin pump is
  spawned but the counter of the wait group counts the stdout and stderr relays only, and
  there is an interleaving in which \<open>Wait\<close> has returned while the stdin pump is still
  copying.
\<close>

theorem stdin_not_counted:
  assumes "Start quote trim tr b cmd = (None, st)" and "Stdin cmd \<noteq> None"
  shows "StdinRelay \<in> set (goroutines st)
       \<and> wg st = (if Stdout cmd \<noteq> None then 1 else 0) + (if Stderr cmd \<noteq> None then 1 else 0)
       \<and> (\<exists>evs s. run evs (started st) = Some s
             \<and> waiter s = WaitReturned \<and> tasks s StdinRelay = Copying)"
proof -
  note st = Start_ok [OF assms(1)]
  let ?drain = "(if Stdout cmd \<noteq> None then [CopyReturns StdoutRelay, TaskEnds StdoutRelay] else [])
              @ (if Stderr cmd \<noteq> None then [CopyReturns StderrRelay, TaskEnds StderrRelay] else [])"
  let ?evs = "?drain @ [SessionEnds, WaitCalled, SessionWaitReturns, WgWaitReturns]"
  have "\<exists>s. run ?evs (started st) = Some s
             \<and> waiter s = WaitReturned \<and> tasks s StdinRelay = Copying"
    using assms(2) by (subst st) (simp add: started_def)
  then have "\<exists>evs s. run evs (started st) = Some s
             \<and> waiter s = WaitReturned \<and> tasks s StdinRelay = Copying"
    by blast
  moreover have "StdinRelay \<in> set (goroutines st)" using assms(2) by (subst st) simp
  moreover have "wg st = (if Stdout cmd \<noteq> None then 1 else 0) + (if Stderr cmd \<noteq> None then 1 else 0)"
    by (subst st) simp
  ultimately show ?thesis by blast
qed

text \<open>The theorem of claim C10 on a command with an input and an output stream.\<close>

theorem stdin_not_counted_witness:
  "\<exists>st evs s. Start quoteSpaces trimBlanks okTransport linuxBox
             ((Shell linuxBox ''cat'' [])\<lparr>Stdin := Some 0, Stdout := Some 1\<rparr>) = (None, st)
     \<and> StdinRelay \<in> set (goroutines st) \<and> wg st = 1
     \<and> run evs (started st) = Some s
     \<and> waiter s = WaitReturned \<and> tasks s StdinRelay = Copying"
proof -
  let ?cmd = "(Shell linuxBox ''cat'' [])\<lparr>Stdin := Some 0, Stdout := Some 1\<rparr>"
  obtain st where h1: "Start quoteSpaces trimBlanks okTransport linuxBox ?cmd = (None, st)"
    by (simp add: eval_Start Shell_def)
  have h2: "Stdin ?cmd \<noteq> None" by simp
  from stdin_not_counted [OF h1 h2] h1 show ?thesis
    by (auto simp: Shell_def)
qed

section \<open>The accept loop\<close>

text \<open>
  Claim C3, as the code has it. When the dial for an accepted connection fails, after any
  number of connections whose dial succeeded, \<open>doTunnel\<close> closes that local connection and
  returns the error, and the accept loop returns: the listener is closed and whatever the
  environment would have answered next is never accepted.
\<close>

theorem acceptLoop_failed_dial_returns:
  "acceptLoop (map (\<lambda>c. Accepted c None) cs @ Accepted c (Some err) # rest) s
     = (LoopReturned,
        s\<lparr>listening := False,
          accepted := accepted s @ cs @ [c],
          local_closed := local_closed s @ [c],
          forwarding := forwarding s @ cs\<rparr>)"
  by (induction cs arbitrary: s) (simp_all add: doTunnel_def)

text \<open>
  Claim C3 as stated fails: after one failed dial the loop has returned and the listener
  is closed; the second connection is neither accepted nor forwarded.
\<close>

theorem failed_dial_stops_listener:
  "SetupLocalPort (Inr 4000) [Accepted 1 (Some (Error ''connection refused'')), Accepted 2 None]
     = (Inr 4000,
        Some (LoopReturned,
              \<lparr>listening = False, accepted = [1], local_closed = [1], forwarding = []\<rparr>))"
  by (simp add: SetupLocalPort_def doTunnel_def)

section \<open>Temporary directories\<close>

text \<open>
  Claim C6, as the code has it. On a Windows remote \<open>MakeTempDir\<close> returns the fixed error,
  no path and no cleanup handle, without running a command. On any OS other than Linux,
  OSX and Windows it panics, without running a command either.
\<close>

theorem MakeTempDir_unsupported:
  "MakeTempDir call (b\<lparr>os := Windows\<rparr>) r
     = Returns ([], None, Some (Error ''Windows remote targets are not yet supported.'')) r
   \<and> MakeTempDir call (b\<lparr>os := OtherOS k\<rparr>) r = Panics (OtherOS k) r"
  by (simp add: MakeTempDir_def createWindowsTempDirectory_def)

text \<open>
  Claim C6 as stated fails: on an OS class that the switch does not name, \<open>MakeTempDir\<close>
  does not return an error, it panics.
\<close>

theorem MakeTempDir_other_os_panics:
  "MakeTempDir logCall (linuxBox\<lparr>os := OtherOS 0\<rparr>) [] = Panics (OtherOS 0) []"
  by (simp add: MakeTempDir_def)

section \<open>Writing and pushing files\<close>

lemma octal_length: "n < 512 \<Longrightarrow> length (octal n) \<le> 3 \<and> octal n \<noteq> []"
  by (subst octal.simps, subst octal.simps, subst octal.simps) (auto simp: octal.simps[of "n div 8 div 8"])

lemma digit_not_blank: "k < 8 \<Longrightarrow> ''01234567'' ! k \<noteq> CHR '' ''"
proof -
  assume "k < 8"
  then have "k \<in> {0, 1, 2, 3, 4, 5, 6, 7}" by auto
  then show ?thesis by auto
qed

lemma octal_no_blank: "CHR '' '' \<notin> set (octal n)"
proof (induction n rule: octal.induct)
  case (1 n)
  show ?case
  proof (cases "n < 8")
    case True
    then show ?thesis using digit_not_blank [of n] by (subst octal.simps) auto
  next
    case False
    have "n mod 8 < 8" by simp
    from digit_not_blank [OF this] 1 [OF False] False show ?thesis
      by (subst octal.simps) auto
  qed
qed

lemma Perm_bound: "unat (Perm m) < 512"
proof -
  have "m AND 511 \<le> 511" by (rule word_and_le1)
  then have "unat (m AND 511) \<le> 511" by (simp add: word_le_nat_alt)
  then show ?thesis by (simp add: Perm_def)
qed

lemma Sprintf_4o_Perm:
  "length (Sprintf_4o (Perm m)) = 4
   \<and> hd (Sprintf_4o (Perm m)) = CHR '' ''
   \<and> dropWhile (\<lambda>c. c = CHR '' '') (Sprintf_4o (Perm m)) = octal (unat (Perm m))"
proof -
  let ?d = "octal (unat (Perm m))"
  from octal_length [OF Perm_bound [of m]] have len: "length ?d \<le> 3" "?d \<noteq> []" by auto
  have nb: "CHR '' '' \<notin> set ?d" by (rule octal_no_blank)
  from len have pad: "replicate (4 - length ?d) CHR '' '' \<noteq> []" by simp
  have "dropWhile (\<lambda>c. c = CHR '' '') (replicate (4 - length ?d) CHR '' '' @ ?d) = ?d"
    using nb len(2) by (cases ?d) (auto simp: dropWhile_append)
  moreover have "hd (replicate (4 - length ?d) CHR '' '' @ ?d) = CHR '' ''"
    using pad by (cases "4 - length ?d") auto
  ultimately show ?thesis using len by (simp add: Sprintf_4o_def Let_def)
qed

text \<open>
  Claim C7, as the code has it. \<open>WriteFile\<close> runs one command, \<open>cat\<close> with the arguments
  \<open>>\<close>, the destination, \<open>; chmod \<close>, the mode, a blank, and the destination, and with the
  contents as its input; it returns the error of that command. The line composed for it is
  the device's environment tokens and then \<open>cat > DEST ; chmod  MODE   DEST\<close>. The mode is
  the nine permission bits in octal, at most three digits, padded with blanks on the left
  to four characters: it always starts with a blank.
\<close>

theorem WriteFile_command:
  "WriteFile call b contents mode destPath r =
     (snd (fst (call
        \<lparr>Name = ''cat'',
         Args = [''>'', destPath, ''; chmod '', Sprintf_4o (Perm mode), '' '', destPath],
         Dir = [], Environment = nilEnv,
         Stdin = Some contents, Stdout = None, Stderr = None\<rparr> r)),
      snd (call
        \<lparr>Name = ''cat'',
         Args = [''>'', destPath, ''; chmod '', Sprintf_4o (Perm mode), '' '', destPath],
         Dir = [], Environment = nilEnv,
         Stdin = Some contents, Stdout = None, Stderr = None\<rparr> r))
   \<and> commandLine quote trim b
        \<lparr>Name = ''cat'',
         Args = [''>'', destPath, ''; chmod '', Sprintf_4o (Perm mode), '' '', destPath],
         Dir = [], Environment = nilEnv,
         Stdin = Some contents, Stdout = None, Stderr = None\<rparr>
      = envTokens quote trim (env b) (Keys (env b))
        @ ''cat > '' @ destPath @ '' ; chmod  '' @ Sprintf_4o (Perm mode) @ ''   '' @ destPath
   \<and> length (Sprintf_4o (Perm mode)) = 4
   \<and> hd (Sprintf_4o (Perm mode)) = CHR '' ''
   \<and> dropWhile (\<lambda>c. c = CHR '' '') (Sprintf_4o (Perm mode)) = octal (unat (mode AND 511))"
proof -
  have "WriteFile call b contents mode destPath r =
     (snd (fst (call
        \<lparr>Name = ''cat'',
         Args = [''>'', destPath, ''; chmod '', Sprintf_4o (Perm mode), '' '', destPath],
         Dir = [], Environment = nilEnv,
         Stdin = Some contents, Stdout = None, Stderr = None\<rparr> r)),
      snd (call
        \<lparr>Name = ''cat'',
         Args = [''>'', destPath, ''; chmod '', Sprintf_4o (Perm mode), '' '', destPath],
         Dir = [], Environment = nilEnv,
         Stdin = Some contents, Stdout = None, Stderr = None\<rparr> r))"
    by (simp add: WriteFile_def Read_def Shell_def Let_def split: prod.splits)
  moreover have "commandLine quote trim b
        \<lparr>Name = ''cat'',
         Args = [''>'', destPath, ''; chmod '', Sprintf_4o (Perm mode), '' '', destPath],
         Dir = [], Environment = nilEnv,
         Stdin = Some contents, Stdout = None, Stderr = None\<rparr>
      = envTokens quote trim (env b) (Keys (env b))
        @ ''cat > '' @ destPath @ '' ; chmod  '' @ Sprintf_4o (Perm mode) @ ''   '' @ destPath"
    by (simp add: commandLine_parts nilEnv_def)
  ultimately show ?thesis
    using Sprintf_4o_Perm [of mode] by (simp add: Perm_def)
qed

text \<open>
  Claim C7 as stated fails on the format of the mode: octal 644 (420) is written as a blank
  and three digits, not as four digits.
\<close>

theorem WriteFile_mode_blank_padded:
  "map (commandLine quoteSpaces trimBlanks linuxBox)
       (snd (WriteFile logCall linuxBox 7 420 ''/tmp/f'' []))
     = [''cat > /tmp/f ; chmod   644   /tmp/f'']
   \<and> Sprintf_4o (Perm 420) = '' 644''"
  by (simp add: WriteFile_def Read_def logCall_def Sprintf_4o_def Perm_def octal.simps
      eval_commandLine)

lemma or_550_exec: "Perm (m OR 360) AND 360 = 360"
proof -
  have a: "(511 :: 32 word) AND 360 = 360" by simp
  have "((m OR 360) AND 511) AND 360 = (m OR 360) AND (511 AND 360)"
    by (simp only: and.assoc)
  also have "\<dots> = (m OR 360) AND 360" by (simp only: a)
  also have "\<dots> = 360" by (simp only: word_ao_absorbs)
  finally show ?thesis by (simp only: Perm_def)
qed

text \<open>
  Claim C8, as the code has it. For a file that opens and has a mode: when the remote is
  Linux or OSX and the local GOOS is \<open>windows\<close>, \<open>PushFile\<close> writes the file with octal 0550
  or-ed into its mode, so the permission written has the read and execute bits of owner
  and group; in every other case it writes the file with the local mode unchanged.
\<close>

theorem PushFile_mode:
  assumes "os_Open fs source = Inr infile" and "os_Stat fs source = Inr mode"
  shows "((os b = Linux \<or> os b = OSX) \<and> goos = ''windows'' \<longrightarrow>
            PushFile call goos fs b source dest r = WriteFile call b infile (mode OR 360) dest r
          \<and> Perm (mode OR 360) AND 360 = 360)
       \<and> (\<not> ((os b = Linux \<or> os b = OSX) \<and> goos = ''windows'') \<longrightarrow>
            PushFile call goos fs b source dest r = WriteFile call b infile mode dest r)"
  using assms by (simp add: PushFile_def or_550_exec)

text \<open>The theorem of claim C8 on a Windows host and on a Linux host, pushing to Linux.\<close>

theorem PushFile_mode_witness:
  "PushFile logCall ''windows'' (plainFile 420) linuxBox ''a.out'' ''/tmp/a.out'' []
     = WriteFile logCall linuxBox 7 (420 OR 360) ''/tmp/a.out'' []
   \<and> Perm (420 OR 360) AND 360 = 360
   \<and> PushFile logCall ''linux'' (plainFile 420) linuxBox ''a.out'' ''/tmp/a.out'' []
     = WriteFile logCall linuxBox 7 420 ''/tmp/a.out'' []"
proof -
  have h1: "os_Open (plainFile 420) ''a.out'' = Inr 7"
    and h2: "os_Stat (plainFile 420) ''a.out'' = Inr 420"
    by (simp_all add: plainFile_def)
  from PushFile_mode [OF h1 h2, of linuxBox "''windows''" logCall "''/tmp/a.out''" "[]"]
    PushFile_mode [OF h1 h2, of linuxBox "''linux''" logCall "''/tmp/a.out''" "[]"]
  show ?thesis by (simp add: linuxBox_def)
qed

text \<open>
  Claim C8 as stated fails: on a host whose GOOS is not \<open>windows\<close>, a local mode without
  any execute bit (octal 644) is written as it is.
\<close>

theorem PushFile_posix_host_no_exec:
  "map (commandLine quoteSpaces trimBlanks linuxBox)
       (snd (PushFile logCall ''linux'' (plainFile 420) linuxBox ''a.out'' ''/tmp/a.out'' []))
     = [''cat > /tmp/a.out ; chmod   644   /tmp/a.out'']
   \<and> (420 :: FileMode) AND 73 = 0"
  by (simp add: PushFile_def plainFile_def WriteFile_def Read_def logCall_def Sprintf_4o_def
      Perm_def octal.simps eval_commandLine)

section \<open>Path probes\<close>

text \<open>
  Claim C9. Probed on the same remote state, \<open>IsDirectory\<close> and \<open>IsFile\<close> are never both
  true; neither ever returns an error; \<open>IsFile\<close> is true only when \<open>IsDirectory\<close> was false
  and the \<open>stat\<close> run after it succeeded; \<open>IsDirectory\<close> is true exactly when \<open>cd\<close>
  succeeded.
\<close>

theorem IsFile_IsDirectory_exclusive:
  "\<not> (fst (fst (IsDirectory call b p r)) \<and> fst (fst (IsFile call b p r)))
   \<and> snd (fst (IsDirectory call b p r)) = None
   \<and> snd (fst (IsFile call b p r)) = None
   \<and> (fst (fst (IsFile call b p r)) \<longrightarrow>
        \<not> fst (fst (IsDirectory call b p r))
        \<and> snd (fst (call (Shell b ''stat'' [inQuotes p]) (snd (IsDirectory call b p r)))) = None)
   \<and> (fst (fst (IsDirectory call b p r)) \<longleftrightarrow>
        snd (fst (call (Shell b ''cd'' [inQuotes p]) r)) = None)"
  by (auto simp: IsFile_def IsDirectory_def split: prod.splits option.splits)

text \<open>
  The theorem of claim C9 on a remote where \<open>cd\<close> fails and \<open>stat\<close> succeeds (a file), and
  on one where \<open>cd\<close> succeeds (a directory).
\<close>

theorem IsFile_IsDirectory_exclusive_witness:
  "fst (fst (IsFile cdFails linuxBox ''/etc/hosts'' []))
   \<and> \<not> fst (fst (IsDirectory cdFails linuxBox ''/etc/hosts'' []))
   \<and> snd (fst (IsFile cdFails linuxBox ''/etc/hosts'' [])) = None
   \<and> fst (fst (IsDirectory logCall linuxBox ''/etc'' []))
   \<and> \<not> fst (fst (IsFile logCall linuxBox ''/etc'' []))"
proof -
  have f: "fst (fst (IsFile cdFails linuxBox ''/etc/hosts'' []))"
    by (simp add: IsFile_def IsDirectory_def cdFails_def Shell_def)
  have d: "fst (fst (IsDirectory logCall linuxBox ''/etc'' []))"
    by (simp add: IsDirectory_def logCall_def Shell_def)
  from IsFile_IsDirectory_exclusive [of cdFails linuxBox "''/etc/hosts''" "[]"]
    IsFile_IsDirectory_exclusive [of logCall linuxBox "''/etc''" "[]"] f d
  show ?thesis by blast
qed

end
